theory Spec2Isabelle
  imports Main "HOL-Library.Monad_Syntax" "HOL-Library.AList"
begin

section \<open>Go run-time and standard-library operations used by cause.go\<close>

text \<open>
  A Go run-time panic (slice bounds out of range, index out of range) is the value
  \<open>None\<close>; a normal result is \<open>Some\<close>. Indices are Go's signed \<open>int\<close>, modelled
  as \<open>int\<close>, so that \<open>-1\<close> ("not found") and the comparisons \<open>idx >= 0\<close> of the
  source read as written. Strings are byte strings.
\<close>

definition len :: "'a list \<Rightarrow> int" where
  "len s = int (length s)"

text \<open>\<open>s[lo:hi]\<close>, \<open>s[lo:]\<close> and \<open>s[i]\<close>: they panic outside the bounds.\<close>

definition slice :: "'a list \<Rightarrow> int \<Rightarrow> int \<Rightarrow> 'a list option" where
  "slice s lo hi =
     (if 0 \<le> lo \<and> lo \<le> hi \<and> hi \<le> len s
      then Some (take (nat (hi - lo)) (drop (nat lo) s)) else None)"

definition slice_from :: "'a list \<Rightarrow> int \<Rightarrow> 'a list option" where
  "slice_from s lo = slice s lo (len s)"

definition at :: "'a list \<Rightarrow> int \<Rightarrow> 'a option" where
  "at s i = (if 0 \<le> i \<and> i < len s then Some (s ! nat i) else None)"

text \<open>\<open>strings.HasPrefix\<close>, \<open>strings.IndexByte\<close>, \<open>strings.LastIndexByte\<close>,
  \<open>strings.Index\<close>, \<open>strings.Contains\<close>, \<open>strings.Split\<close> (with a non-empty
  separator) and \<open>strings.Join\<close>.\<close>

definition HasPrefix :: "string \<Rightarrow> string \<Rightarrow> bool" where
  "HasPrefix s p = (take (length p) s = p)"

fun IndexByte :: "string \<Rightarrow> char \<Rightarrow> int" where
  "IndexByte [] c = - 1"
| "IndexByte (x # xs) c =
     (if x = c then 0 else (let i = IndexByte xs c in if i < 0 then - 1 else i + 1))"

definition LastIndexByte :: "string \<Rightarrow> char \<Rightarrow> int" where
  "LastIndexByte s c =
     (let i = IndexByte (rev s) c in if i < 0 then - 1 else len s - 1 - i)"

fun Index :: "string \<Rightarrow> string \<Rightarrow> int" where
  "Index [] p = (if p = [] then 0 else - 1)"
| "Index (x # xs) p =
     (if HasPrefix (x # xs) p then 0
      else (let i = Index xs p in if i < 0 then - 1 else i + 1))"

definition Contains :: "string \<Rightarrow> string \<Rightarrow> bool" where
  "Contains s p = (0 \<le> Index s p)"

fun split_acc :: "string \<Rightarrow> nat \<Rightarrow> string \<Rightarrow> string \<Rightarrow> string list" where
  "split_acc sep skip acc [] = [rev acc]"
| "split_acc sep skip acc (x # xs) =
     (if 0 < skip then split_acc sep (skip - 1) acc xs
      else if HasPrefix (x # xs) sep then rev acc # split_acc sep (length sep - 1) [] xs
      else split_acc sep 0 (x # acc) xs)"

definition Split :: "string \<Rightarrow> string \<Rightarrow> string list" where
  "Split s sep = split_acc sep 0 [] s"

fun Join :: "string list \<Rightarrow> string \<Rightarrow> string" where
  "Join [] sep = []"
| "Join [x] sep = x"
| "Join (x # y # ys) sep = x @ sep @ Join (y # ys) sep"

text \<open>
  \<open>strconv.Atoi\<close> with the error dropped (\<open>n, _ = strconv.Atoi(s)\<close>): an optional
  sign and decimal digits give the number, clamped to the 64-bit \<open>int\<close> range on
  overflow; every other text gives 0.
\<close>

definition is_digit :: "char \<Rightarrow> bool" where
  "is_digit c = (48 \<le> (of_char c :: nat) \<and> (of_char c :: nat) \<le> 57)"

fun digits_value :: "nat \<Rightarrow> string \<Rightarrow> nat" where
  "digits_value v [] = v"
| "digits_value v (c # cs) = digits_value (10 * v + (of_char c - 48)) cs"

definition Atoi :: "string \<Rightarrow> int" where
  "Atoi s =
     (let neg = (case s of [] \<Rightarrow> False | c # cs \<Rightarrow> c = CHR ''-'');
          ds = (case s of [] \<Rightarrow> [] | c # cs \<Rightarrow> if c = CHR ''-'' \<or> c = CHR ''+'' then cs else s)
      in if ds = [] \<or> \<not> list_all is_digit ds then 0
         else if neg then max (- (2 ^ 63)) (- int (digits_value 0 ds))
         else min (2 ^ 63 - 1) (int (digits_value 0 ds)))"

text \<open>
  \<open>textproto.Reader.ReadLine\<close> over \<open>bufio.NewReader(strings.NewReader(text))\<close>:
  each call returns the text up to the next \<open>\n\<close>, without the \<open>\n\<close> and without
  a \<open>\r\<close> right before it; the text after the last \<open>\n\<close> is a last line when it
  is not empty; after that the call returns the empty string and an error. The reader
  is the list of the lines not yet read.
\<close>

definition drop_cr :: "string \<Rightarrow> string" where
  "drop_cr l = (if l \<noteq> [] \<and> last l = CHR 0x0D then butlast l else l)"

fun lines_acc :: "string \<Rightarrow> string \<Rightarrow> string list" where
  "lines_acc acc [] = (if acc = [] then [] else [rev acc])"
| "lines_acc acc (c # cs) =
     (if c = CHR 0x0A then drop_cr (rev acc) # lines_acc [] cs else lines_acc (c # acc) cs)"

definition NewReader :: "string \<Rightarrow> string list" where
  "NewReader text = lines_acc [] text"

text \<open>\<open>ReadLine\<close> returns the line, whether an error occurred, and the reader after it.\<close>

fun ReadLine :: "string list \<Rightarrow> string \<times> bool \<times> string list" where
  "ReadLine [] = ([], True, [])"
| "ReadLine (l # r) = (l, False, r)"

section \<open>The X-Ray cause model and the span model\<close>

text \<open>
  \<open>awsxray.StackFrame\<close>, \<open>awsxray.Exception\<close> and \<open>awsxray.CauseData\<close>, with the
  fields cause.go writes. A pointer field is an option (\<open>None\<close> is nil), a slice that
  may be nil an option of a list. The code never inspects an identifier, so the model
  is polymorphic in the identifier type; the program is the instance \<open>string\<close>.
\<close>

record StackFrame =
  Path :: "string option"
  Label :: "string option"
  Line :: "int option"

record 'id Exception =
  ID :: "'id option"
  Type :: "string option"
  Message :: "string option"
  Cause :: "'id option"
  Stack :: "StackFrame list option"

datatype CauseType = CauseTypeExceptionID | CauseTypeObject

record 'id CauseData =
  CType :: CauseType
  Exceptions :: "'id Exception list"

text \<open>
  \<open>newSegmentID().HexString()\<close> is not part of the translated file; it is taken as a
  parameter: the supply of the identifiers that the successive calls return. A call
  returns the head of the supply and leaves its tail.
\<close>

type_synonym 'id idsupply = "nat \<Rightarrow> 'id"

definition newSegmentID :: "'id idsupply \<Rightarrow> 'id \<times> 'id idsupply" where
  "newSegmentID ids = (ids 0, \<lambda>k. ids (Suc k))"

text \<open>\<open>append(s, x)\<close> on a slice that may be nil.\<close>

definition append_frame :: "StackFrame list option \<Rightarrow> StackFrame \<Rightarrow> StackFrame list option" where
  "append_frame st f = (case st of None \<Rightarrow> Some [f] | Some fs \<Rightarrow> Some (fs @ [f]))"

text \<open>
  The parsers hold a pointer \<open>exception\<close> into the slice \<open>exceptions\<close>; the model
  holds the index \<open>cur\<close> of the element it points to. \<open>push_frame\<close> is
  \<open>exception.Stack = append(exception.Stack, stack)\<close>, \<open>reset_stack\<close> is
  \<open>exception.Stack = make([]awsxray.StackFrame, 0)\<close>.
\<close>

definition push_frame :: "nat \<Rightarrow> StackFrame \<Rightarrow> 'id Exception list \<Rightarrow> 'id Exception list" where
  "push_frame cur f excs = excs[cur := (excs ! cur)\<lparr>Stack := append_frame (Stack (excs ! cur)) f\<rparr>]"

definition reset_stack :: "nat \<Rightarrow> 'id Exception list \<Rightarrow> 'id Exception list" where
  "reset_stack cur excs = excs[cur := (excs ! cur)\<lparr>Stack := Some []\<rparr>]"

text \<open>
  The nested-cause step of the Java and Python parsers: append a new exception with a
  fresh identifier and an empty stack, and store its identifier in the \<open>Cause\<close> of
  \<open>exceptions[len(exceptions)-2]\<close>. The source also writes through the old pointer
  (\<open>exception.Cause = newException.ID\<close>): for the one-element slice of capacity 1 that
  \<open>parseException\<close> hands over, the old pointer is element \<open>len(exceptions)-2\<close> of
  the current array or an element of an array that \<open>append\<close> has left behind, so that
  write adds nothing. The pointer then moves to the last element.
\<close>

definition push_cause ::
  "string \<Rightarrow> string \<Rightarrow> 'id Exception list \<Rightarrow> 'id idsupply \<Rightarrow> ('id Exception list \<times> 'id idsupply) option" where
  "push_cause causeType causeMessage excs ids =
     (let (hexID, ids') = newSegmentID ids;
          excs1 = excs @ [\<lparr>ID = Some hexID, Type = Some causeType, Message = Some causeMessage,
                           Cause = None, Stack = Some []\<rparr>]
      in if length excs1 < 2 then None
         else Some (excs1[length excs1 - 2 := (excs1 ! (length excs1 - 2))\<lparr>Cause := Some hexID\<rparr>], ids'))"

section \<open>Convention A: \<open>fillJavaStacktrace\<close>\<close>

definition tab_at :: string where
  "tab_at = CHR 0x09 # ''at ''"

text \<open>The body of the branch \<open>strings.HasPrefix(line, "\tat ")\<close>: the frame of the
  line, if the line has a \<open>(\<close> and ends with \<open>)\<close>.\<close>

definition javaFrame :: "string \<Rightarrow> StackFrame option option" where
  "javaFrame line =
     (let parenIdx = IndexByte line CHR ''(''
      in if parenIdx < 0 then Some None
         else do {
           c \<leftarrow> at line (len line - 1);
           if c \<noteq> CHR '')'' then Some None
           else do {
             label0 \<leftarrow> slice line (len tab_at) parenIdx;
             let slashIdx = IndexByte label0 CHR ''/'';
             label \<leftarrow> (if 0 \<le> slashIdx then slice_from label0 (slashIdx + 1) else Some label0);
             path0 \<leftarrow> slice line (parenIdx + 1) (len line - 1);
             let colonIdx = IndexByte path0 CHR '':'';
             lineStr \<leftarrow> (if 0 \<le> colonIdx then slice_from path0 (colonIdx + 1) else Some []);
             path \<leftarrow> (if 0 \<le> colonIdx then slice path0 0 colonIdx else Some path0);
             let lineNo = (if 0 \<le> colonIdx then Atoi lineStr else 0);
             Some (Some \<lparr>Path = Some path, Label = Some label, Line = Some lineNo\<rparr>)
           }
         })"

text \<open>The head of the branch \<open>strings.HasPrefix(line, "Caused by: ")\<close>: the type and
  the start of the message.\<close>

definition javaCauseHead :: "string \<Rightarrow> (string \<times> string) option" where
  "javaCauseHead line = do {
     causeType \<leftarrow> slice_from line (len ''Caused by: '');
     let colonIdx = IndexByte causeType CHR '':'';
     if 0 \<le> colonIdx then do {
       causeMessage \<leftarrow> slice_from causeType (colonIdx + 2);
       causeType' \<leftarrow> slice causeType 0 colonIdx;
       Some (causeType', causeMessage)
     } else Some (causeType, [])
   }"

text \<open>The test of the inner loop for a stack-frame line; its index expression is
  guarded by the prefix test.\<close>

definition javaIsFrame :: "string \<Rightarrow> bool" where
  "javaIsFrame line =
     (HasPrefix line tab_at \<and> 0 \<le> IndexByte line CHR ''('' \<and> at line (len line - 1) = Some CHR '')'')"

text \<open>The inner loop that peeks lines for a message with newlines: it returns the
  message, the line it stopped at (empty after a read error) and the reader.\<close>

fun javaPeek :: "string \<Rightarrow> string list \<Rightarrow> string \<times> string \<times> string list" where
  "javaPeek causeMessage [] = (causeMessage, [], [])"
| "javaPeek causeMessage (l # r) =
     (if javaIsFrame l then (causeMessage, l, r) else javaPeek (causeMessage @ l) r)"

lemma javaPeek_shorter:
  "javaPeek m r = (m', l', r') \<Longrightarrow> (l' = [] \<and> r' = []) \<or> length r' < length r"
  by (induction m r rule: javaPeek.induct) (auto split: if_splits)

function javaLoop ::
  "string \<Rightarrow> string list \<Rightarrow> nat \<Rightarrow> 'id Exception list \<Rightarrow> 'id idsupply
   \<Rightarrow> ('id Exception list \<times> 'id idsupply) option" where
  "javaLoop line r cur exceptions ids =
     (if HasPrefix line tab_at then
        (case javaFrame line of
           None \<Rightarrow> None
         | Some fr \<Rightarrow>
             (let exceptions' = (case fr of None \<Rightarrow> exceptions
                                 | Some stack \<Rightarrow> push_frame cur stack exceptions)
              in case r of [] \<Rightarrow> Some (exceptions', ids)
                 | l # r' \<Rightarrow> javaLoop l r' cur exceptions' ids))
      else if HasPrefix line ''Caused by: '' then
        (case javaCauseHead line of
           None \<Rightarrow> None
         | Some (causeType, causeMessage0) \<Rightarrow>
             (case javaPeek causeMessage0 r of
                (causeMessage, line', r') \<Rightarrow>
                  (case push_cause causeType causeMessage exceptions ids of
                     None \<Rightarrow> None
                   | Some (exceptions', ids') \<Rightarrow>
                       javaLoop line' r' (length exceptions' - 1) exceptions' ids')))
      else (case r of [] \<Rightarrow> Some (exceptions, ids)
            | l # r' \<Rightarrow> javaLoop l r' cur exceptions ids))"
  by pat_completeness auto
termination
  apply (relation "measure (\<lambda>(line, r, cur, exceptions, ids).
         2 * length r + (if HasPrefix line ''Caused by: '' then 1 else 0))")
     apply simp
    apply simp
   apply (auto simp: HasPrefix_def dest!: javaPeek_shorter[OF sym])
  done

definition fillJavaStacktrace ::
  "string \<Rightarrow> 'id Exception list \<Rightarrow> 'id idsupply \<Rightarrow> ('id Exception list \<times> 'id idsupply) option" where
  "fillJavaStacktrace stacktrace exceptions ids =
     (case ReadLine (NewReader stacktrace) of
        (_, _, r) \<Rightarrow>
          if exceptions = [] then None
          else (case ReadLine r of
                  (line, err, r') \<Rightarrow>
                    if err then Some (exceptions, ids)
                    else javaLoop line r' 0 (reset_stack 0 exceptions) ids))"

section \<open>Convention B: \<open>fillPythonStacktrace\<close>\<close>

text \<open>The body of the branch \<open>strings.HasPrefix(line, "  File ")\<close>.\<close>

definition pythonFrame :: "string \<Rightarrow> StackFrame option option" where
  "pythonFrame line =
     (let parts = Split line '',''
      in if len parts = 3 then do {
           filePart \<leftarrow> at parts 0;
           file \<leftarrow> slice filePart 8 (len filePart - 1);
           part1 \<leftarrow> at parts 1;
           lineStr \<leftarrow> (if HasPrefix part1 '' line '' then slice_from part1 6 else Some []);
           let lineNumber = (if HasPrefix part1 '' line '' then Atoi lineStr else 0);
           part2 \<leftarrow> at parts 2;
           label \<leftarrow> (if HasPrefix part2 '' in '' then slice_from part2 4 else Some []);
           Some (Some \<lparr>Path = Some file, Label = Some label, Line = Some lineNumber\<rparr>)
         }
         else Some None)"

text \<open>The inner loop that walks back to the next \<open>"  File "\<close> line: it returns the
  index of that line, or \<open>-1\<close> when it runs past the first line.\<close>

function pythonNextFile :: "string list \<Rightarrow> int \<Rightarrow> int option" where
  "pythonNextFile lines nextFileLineIdx =
     (if nextFileLineIdx < 0 then Some (- 1)
      else (case at lines nextFileLineIdx of
              None \<Rightarrow> None
            | Some l \<Rightarrow> if HasPrefix l ''  File '' then Some nextFileLineIdx
                        else pythonNextFile lines (nextFileLineIdx - 1)))"
  by pat_completeness auto
termination
  by (relation "measure (\<lambda>(lines, i). nat (i + 1))") auto

declare pythonNextFile.simps [simp del]

lemma pythonNextFile_le: "- 1 \<le> i \<Longrightarrow> pythonNextFile lines i = Some nf \<Longrightarrow> nf \<le> i"
proof (induction lines i rule: pythonNextFile.induct)
  case (1 lines i)
  show ?case
  proof (cases "i < 0")
    case True
    with 1(2,3) show ?thesis by (simp add: pythonNextFile.simps)
  next
    case False
    with 1(3) obtain l where l: "at lines i = Some l"
      by (auto simp: pythonNextFile.simps split: option.splits)
    show ?thesis
    proof (cases "HasPrefix l ''  File ''")
      case True
      with False l 1(3) show ?thesis by (simp add: pythonNextFile.simps)
    next
      case hp: False
      with False l 1(3) have "pythonNextFile lines (i - 1) = Some nf"
        by (simp add: pythonNextFile.simps)
      with 1(1)[OF False l hp] False show ?thesis by simp
    qed
  qed
qed

lemma at_Some_nonneg: "at xs i = Some x \<Longrightarrow> 0 \<le> i"
  by (simp add: at_def split: if_splits)

text \<open>The type and the message of the nested exception, joined from the lines between
  the \<open>"  File "\<close> line found and the \<open>During handling\<close> line; the inner \<open>None\<close> is
  the early return for a message without a colon.\<close>

definition pythonCauseHead :: "string list \<Rightarrow> int \<Rightarrow> int \<Rightarrow> (string \<times> string) option option" where
  "pythonCauseHead lines lineIdx nextFileLineIdx = do {
     ls \<leftarrow> slice lines (nextFileLineIdx + 2) (lineIdx - 1);
     let message = Join ls [CHR 0x0A];
     let colonIdx = IndexByte message CHR '':'';
     if colonIdx < 0 then Some None
     else do {
       causeType \<leftarrow> slice message 0 colonIdx;
       causeMessage \<leftarrow> slice_from message (colonIdx + 2);
       Some (Some (causeType, causeMessage))
     }
   }"

definition during_handling :: string where
  "during_handling = ''During handling of the above exception, another exception occurred:''"

text \<open>The main loop. The variable \<open>line\<close> of the source always holds
  \<open>lines[lineIdx]\<close> at the head of the loop, so the model reads it there.\<close>

function pythonLoop ::
  "string list \<Rightarrow> int \<Rightarrow> nat \<Rightarrow> 'id Exception list \<Rightarrow> 'id idsupply
   \<Rightarrow> ('id Exception list \<times> 'id idsupply) option" where
  "pythonLoop lines lineIdx cur exceptions ids =
     (case at lines lineIdx of
        None \<Rightarrow> None
      | Some line \<Rightarrow>
          if HasPrefix line ''  File '' then
            (case pythonFrame line of
               None \<Rightarrow> None
             | Some fr \<Rightarrow>
                 (let exceptions' = (case fr of None \<Rightarrow> exceptions
                                     | Some stack \<Rightarrow> push_frame cur stack exceptions)
                  in if lineIdx - 1 < 0 then Some (exceptions', ids)
                     else pythonLoop lines (lineIdx - 1) cur exceptions' ids))
          else if HasPrefix line during_handling then
            (case pythonNextFile lines (lineIdx - 1) of
               None \<Rightarrow> None
             | Some nextFileLineIdx \<Rightarrow>
                 if nextFileLineIdx < 0 then Some (exceptions, ids)
                 else (case pythonCauseHead lines lineIdx nextFileLineIdx of
                         None \<Rightarrow> None
                       | Some None \<Rightarrow> Some (exceptions, ids)
                       | Some (Some (causeType, causeMessage)) \<Rightarrow>
                           (case push_cause causeType causeMessage exceptions ids of
                              None \<Rightarrow> None
                            | Some (exceptions', ids') \<Rightarrow>
                                pythonLoop lines nextFileLineIdx (length exceptions' - 1)
                                  exceptions' ids')))
          else if lineIdx - 1 < 0 then Some (exceptions, ids)
          else pythonLoop lines (lineIdx - 1) cur exceptions ids)"
  by pat_completeness auto
termination
  apply (relation "measure (\<lambda>(lines, lineIdx, cur, exceptions, ids). nat lineIdx)")
     apply simp
    apply simp
   apply (auto dest!: pythonNextFile_le[rotated] at_Some_nonneg)
  done

definition fillPythonStacktrace ::
  "string \<Rightarrow> 'id Exception list \<Rightarrow> 'id idsupply \<Rightarrow> ('id Exception list \<times> 'id idsupply) option" where
  "fillPythonStacktrace stacktrace exceptions ids =
     (let lines = Split stacktrace [CHR 0x0A];
          lineIdx = len lines - 2
      in if lineIdx < 0 then Some (exceptions, ids)
         else if exceptions = [] then None
         else pythonLoop lines lineIdx 0 (reset_stack 0 exceptions) ids)"

section \<open>Convention C: \<open>fillJavaScriptStacktrace\<close>\<close>

definition indexOf :: "string \<Rightarrow> char \<Rightarrow> int \<Rightarrow> int option" where
  "indexOf str c pos =
     (if pos < 0 then Some (- 1)
      else do {
        rest \<leftarrow> slice_from str (pos + 1);
        let index = IndexByte rest c;
        if index > - 1 then Some (index + pos + 1) else Some (- 1)
      })"

text \<open>The body of the branch \<open>strings.HasPrefix(line, "    at ")\<close>.\<close>

definition jsFrame :: "string \<Rightarrow> StackFrame option option" where
  "jsFrame line =
     (let parenIdx = IndexByte line CHR ''(''
      in do {
        closed \<leftarrow> (if 0 \<le> parenIdx then map_option (\<lambda>c. c = CHR '')'') (at line (len line - 1))
                    else Some False);
        label \<leftarrow> (if closed then slice line 7 parenIdx else Some []);
        path0 \<leftarrow> (if closed then slice line (parenIdx + 1) (len line - 1)
                   else if parenIdx < 0 then slice_from line 7 else Some []);
        let colonFirstIdx = IndexByte path0 CHR '':'';
        colonSecondIdx \<leftarrow> indexOf path0 CHR '':'' colonFirstIdx;
        let numbered = (0 \<le> colonFirstIdx \<and> 0 \<le> colonSecondIdx \<and> colonFirstIdx \<noteq> colonSecondIdx);
        lineStr \<leftarrow> (if numbered then slice path0 (colonFirstIdx + 1) colonSecondIdx else Some []);
        path \<leftarrow> (if numbered then slice path0 0 colonFirstIdx
                  else if colonFirstIdx < 0 \<and> Contains path0 ''native'' then Some ''native''
                  else Some path0);
        let lineIdx = (if numbered then Atoi lineStr else 0);
        if path \<noteq> [] \<or> label \<noteq> [] \<or> lineIdx \<noteq> 0
        then Some (Some \<lparr>Path = Some path, Label = Some label, Line = Some lineIdx\<rparr>)
        else Some None
      })"

fun jsLoop :: "string \<Rightarrow> string list \<Rightarrow> nat \<Rightarrow> 'id Exception list \<Rightarrow> 'id Exception list option" where
  "jsLoop line r cur exceptions =
     (case (if HasPrefix line ''    at '' then jsFrame line else Some None) of
        None \<Rightarrow> None
      | Some fr \<Rightarrow>
          (let exceptions' = (case fr of None \<Rightarrow> exceptions
                              | Some stack \<Rightarrow> push_frame cur stack exceptions)
           in case r of [] \<Rightarrow> Some exceptions'
              | l # r' \<Rightarrow> jsLoop l r' cur exceptions'))"

definition fillJavaScriptStacktrace ::
  "string \<Rightarrow> 'id Exception list \<Rightarrow> 'id idsupply \<Rightarrow> ('id Exception list \<times> 'id idsupply) option" where
  "fillJavaScriptStacktrace stacktrace exceptions ids =
     (case ReadLine (NewReader stacktrace) of
        (_, _, r) \<Rightarrow>
          if exceptions = [] then None
          else (case ReadLine r of
                  (line, err, r') \<Rightarrow>
                    if err then Some (exceptions, ids)
                    else map_option (\<lambda>es. (es, ids)) (jsLoop line r' 0 (reset_stack 0 exceptions))))"

section \<open>Convention D: \<open>fillDotnetStacktrace\<close>\<close>

text \<open>The body of the branch \<open>strings.HasPrefix(line, "\tat ")\<close>.\<close>

definition dotnetFrame :: "string \<Rightarrow> StackFrame option option" where
  "dotnetFrame line =
     (let index = Index line '' in ''
      in if 0 \<le> index then do {
           let parts = Split line '' in '';
           part0 \<leftarrow> at parts 0;
           label \<leftarrow> slice_from part0 (len tab_at);
           part1 \<leftarrow> at parts 1;
           let colonIdx = LastIndexByte part1 CHR '':'';
           lineStr0 \<leftarrow> (if 0 \<le> colonIdx then slice_from part1 (colonIdx + 1) else Some []);
           lineStr \<leftarrow> (if 0 \<le> colonIdx \<and> HasPrefix lineStr0 ''line'' then slice_from lineStr0 5
                       else Some lineStr0);
           path \<leftarrow> (if 0 \<le> colonIdx then slice part1 0 colonIdx else Some part1);
           let lineNumber = (if 0 \<le> colonIdx then Atoi lineStr else 0);
           Some (Some \<lparr>Path = Some path, Label = Some label, Line = Some lineNumber\<rparr>)
         }
         else (let idx = LastIndexByte line CHR '')''
               in if 0 \<le> idx then do {
                    label \<leftarrow> slice line (len tab_at) (idx + 1);
                    Some (Some \<lparr>Path = Some [], Label = Some label, Line = Some 0\<rparr>)
                  }
                  else Some None))"

fun dotnetLoop :: "string \<Rightarrow> string list \<Rightarrow> nat \<Rightarrow> 'id Exception list \<Rightarrow> 'id Exception list option" where
  "dotnetLoop line r cur exceptions =
     (case (if HasPrefix line tab_at then dotnetFrame line else Some None) of
        None \<Rightarrow> None
      | Some fr \<Rightarrow>
          (let exceptions' = (case fr of None \<Rightarrow> exceptions
                              | Some stack \<Rightarrow> push_frame cur stack exceptions)
           in case r of [] \<Rightarrow> Some exceptions'
              | l # r' \<Rightarrow> dotnetLoop l r' cur exceptions'))"

definition fillDotnetStacktrace ::
  "string \<Rightarrow> 'id Exception list \<Rightarrow> 'id idsupply \<Rightarrow> ('id Exception list \<times> 'id idsupply) option" where
  "fillDotnetStacktrace stacktrace exceptions ids =
     (case ReadLine (NewReader stacktrace) of
        (_, _, r) \<Rightarrow>
          if exceptions = [] then None
          else (case ReadLine r of
                  (line, err, r') \<Rightarrow>
                    if err then Some (exceptions, ids)
                    else map_option (\<lambda>es. (es, ids)) (dotnetLoop line r' 0 (reset_stack 0 exceptions))))"

section \<open>Convention E: \<open>fillGoStacktrace\<close>\<close>

text \<open>
  The two regular expressions, with the semantics of Go's \<open>regexp\<close> package
  (leftmost match, greedy repetition; \<open>\s\<close> is tab, newline, form feed, carriage return
  and space, \<open>\d\<close> is \<open>0-9\<close>, \<open>\b\<close> is an ASCII word boundary, \<open>.\<close> is any
  character but newline, which a line never holds). All the characters the patterns
  name are ASCII, so matching on bytes and on runes agree.

  \<open>plnre = ([^:\s]+)\:(\d+)\<close>: the first maximal run of characters other than colon
  and white space that a colon and a digit follow, and the digits after the colon.
\<close>

definition is_space :: "char \<Rightarrow> bool" where
  "is_space c = (c = CHR 0x09 \<or> c = CHR 0x0A \<or> c = CHR 0x0C \<or> c = CHR 0x0D \<or> c = CHR '' '')"

fun plnre_scan :: "string \<Rightarrow> string \<Rightarrow> (string \<times> string) option" where
  "plnre_scan acc [] = None"
| "plnre_scan acc (c # cs) =
     (if c = CHR '':'' then
        (if acc \<noteq> [] \<and> (case cs of [] \<Rightarrow> False | d # ds \<Rightarrow> is_digit d)
         then Some (rev acc, takeWhile is_digit cs)
         else plnre_scan [] cs)
      else if is_space c then plnre_scan [] cs
      else plnre_scan (c # acc) cs)"

definition plnre_FindStringSubmatch :: "string \<Rightarrow> (string \<times> string) option" where
  "plnre_FindStringSubmatch line = plnre_scan [] line"

text \<open>
  \<open>re = ^goroutine.*\brunning\b.*:$\<close>: the line starts with \<open>goroutine\<close>, ends with
  a colon, and between them holds \<open>running\<close> with no word character right before
  it or right after it.
\<close>

definition is_word_char :: "char \<Rightarrow> bool" where
  "is_word_char c =
     (let n = (of_char c :: nat)
      in (48 \<le> n \<and> n \<le> 57) \<or> (65 \<le> n \<and> n \<le> 90) \<or> (97 \<le> n \<and> n \<le> 122) \<or> n = 95)"

fun running_after :: "char \<Rightarrow> string \<Rightarrow> bool" where
  "running_after prev [] = False"
| "running_after prev (c # cs) =
     ((\<not> is_word_char prev \<and> HasPrefix (c # cs) ''running'' \<and>
       (case drop 7 (c # cs) of [] \<Rightarrow> False | d # ds \<Rightarrow> \<not> is_word_char d \<and> last (d # ds) = CHR '':''))
      \<or> running_after c cs)"

definition re_Match :: "string \<Rightarrow> bool" where
  "re_Match line = (HasPrefix line ''goroutine'' \<and> running_after (CHR ''e'') (drop 9 line))"

lemma goLoop_reads_shorter:
  "(label, r1) = (if m then (case ReadLine r of (l, e, r') \<Rightarrow> (l, r')) else (line, r))
   \<Longrightarrow> (line2, e2, r2) = ReadLine r1 \<Longrightarrow> (line3, False, r3) = ReadLine r2
   \<Longrightarrow> length r3 < length r"
  by (cases r; cases r1; cases r2) (auto split: if_splits)

text \<open>The loop. The errors of the first two reads of a round are dropped in the
  source (\<open>line, _ = r.ReadLine()\<close>); a failed read gives the empty line.\<close>

function goLoop ::
  "string \<Rightarrow> string list \<Rightarrow> string \<Rightarrow> int \<Rightarrow> nat \<Rightarrow> 'id Exception list \<Rightarrow> 'id Exception list" where
  "goLoop line r path lineNumber cur exceptions =
     (case (if re_Match line then (case ReadLine r of (l, _, r') \<Rightarrow> (l, r')) else (line, r)) of
        (label, r1) \<Rightarrow>
          (case ReadLine r1 of
             (line2, _, r2) \<Rightarrow>
               (case (case plnre_FindStringSubmatch line2 of
                        Some (p, d) \<Rightarrow> (p, Atoi d)
                      | None \<Rightarrow> (path, lineNumber)) of
                  (path', lineNumber') \<Rightarrow>
                    (let exceptions' = push_frame cur
                           \<lparr>Path = Some path', Label = Some label, Line = Some lineNumber'\<rparr> exceptions
                     in case ReadLine r2 of
                          (line3, err, r3) \<Rightarrow>
                            if err then exceptions'
                            else goLoop line3 r3 path' lineNumber' cur exceptions'))))"
  by pat_completeness auto
termination
  apply (relation "measure (\<lambda>(line, r, path, lineNumber, cur, exceptions). length r)")
   apply simp
  apply (auto dest: goLoop_reads_shorter)
  done

definition fillGoStacktrace ::
  "string \<Rightarrow> 'id Exception list \<Rightarrow> 'id idsupply \<Rightarrow> ('id Exception list \<times> 'id idsupply) option" where
  "fillGoStacktrace stacktrace exceptions ids =
     (case ReadLine (NewReader stacktrace) of
        (_, _, r) \<Rightarrow>
          if exceptions = [] then None
          else (case ReadLine r of
                  (line, err, r') \<Rightarrow>
                    if err then Some (exceptions, ids)
                    else Some (goLoop line r' [] 0 0 (reset_stack 0 exceptions), ids)))"

section \<open>The chain builder: \<open>parseException\<close>\<close>

definition parseException ::
  "string \<Rightarrow> string \<Rightarrow> string \<Rightarrow> string \<Rightarrow> 'id idsupply
   \<Rightarrow> ('id Exception list \<times> 'id idsupply) option" where
  "parseException exceptionType message stacktrace language ids =
     (let (hexID, ids') = newSegmentID ids;
          exceptions = [\<lparr>ID = Some hexID, Type = Some exceptionType, Message = Some message,
                          Cause = None, Stack = None\<rparr>]
      in if stacktrace = [] then Some (exceptions, ids')
         else if language = ''java'' then fillJavaStacktrace stacktrace exceptions ids'
         else if language = ''python'' then fillPythonStacktrace stacktrace exceptions ids'
         else if language = ''javascript'' then fillJavaScriptStacktrace stacktrace exceptions ids'
         else if language = ''dotnet'' then fillDotnetStacktrace stacktrace exceptions ids'
         else if language = ''php'' then fillJavaStacktrace stacktrace exceptions ids'
         else if language = ''go'' then fillGoStacktrace stacktrace exceptions ids'
         else Some (exceptions, ids'))"

section \<open>Spans, attributes and \<open>makeCause\<close>\<close>

text \<open>
  The part of \<open>pdata\<close> that \<open>makeCause\<close> reads. An attribute value is a tagged
  union; \<open>StringVal\<close> and \<open>IntVal\<close> give the zero value for a value of another
  kind. A \<open>pdata.AttributeMap\<close> is a sequence of key-value pairs whose \<open>Get\<close>
  returns the first entry with the key. Go's \<open>int64\<close> is modelled as \<open>int\<close>:
  the code only compares the value with constants.
\<close>

datatype AttributeValue =
    AttributeValueEmpty
  | AttributeValueString string
  | AttributeValueInt int
  | AttributeValueBool bool
  | AttributeValueOther

definition StringVal :: "AttributeValue \<Rightarrow> string" where
  "StringVal v = (case v of AttributeValueString s \<Rightarrow> s | _ \<Rightarrow> [])"

definition IntVal :: "AttributeValue \<Rightarrow> int" where
  "IntVal v = (case v of AttributeValueInt i \<Rightarrow> i | _ \<Rightarrow> 0)"

type_synonym AttributeMap = "(string \<times> AttributeValue) list"

definition Get :: "AttributeMap \<Rightarrow> string \<Rightarrow> AttributeValue option" where
  "Get m key = map_of m key"

datatype StatusCode = StatusCodeUnset | StatusCodeOk | StatusCodeError

record SpanEvent =
  EventName :: string
  EventAttributes :: AttributeMap

record Span =
  StatusCodeOf :: StatusCode
  StatusMessage :: string
  SpanAttributes :: AttributeMap
  Events :: "SpanEvent list"

record Resource =
  ResourceAttributes :: AttributeMap

definition ExceptionEventName :: string where
  "ExceptionEventName = ''exception''"

text \<open>
  The parameter \<open>attributes\<close> is a Go map, a reference to a map object: the claims
  about the map returned speak of its identity, so the model has a store of map objects.
  An address is an index into the store; an address outside it reads as the empty map,
  and the theorems about the address returned take the input address inside the store.
  A map object is the list of its entries, with distinct keys, in the order in which
  \<open>range\<close> happens to visit them. \<open>make\<close> allocates the next address.
\<close>

type_synonym addr = nat
type_synonym store = "AttributeMap list"

definition deref :: "store \<Rightarrow> addr \<Rightarrow> AttributeMap" where
  "deref h a = (if a < length h then h ! a else [])"

definition alloc :: "store \<Rightarrow> AttributeMap \<Rightarrow> addr \<times> store" where
  "alloc h m = (length h, h @ [m])"

record 'id CauseResult =
  isError :: bool
  isFault :: bool
  isThrottle :: bool
  filtered :: addr
  cause :: "'id CauseData option"

text \<open>The first loop over the events: is there an exception event.\<close>

fun hasExceptionEvent :: "SpanEvent list \<Rightarrow> bool" where
  "hasExceptionEvent [] = False"
| "hasExceptionEvent (event # evs) =
     (if EventName event = ExceptionEventName then True else hasExceptionEvent evs)"

text \<open>The second loop over the events: parse each exception event and append its chain.\<close>

definition eventString :: "SpanEvent \<Rightarrow> string \<Rightarrow> string" where
  "eventString event key = (case Get (EventAttributes event) key of Some val \<Rightarrow> StringVal val | None \<Rightarrow> [])"

fun parseEvents ::
  "SpanEvent list \<Rightarrow> string \<Rightarrow> 'id Exception list \<Rightarrow> 'id idsupply
   \<Rightarrow> ('id Exception list \<times> 'id idsupply) option" where
  "parseEvents [] language exceptions ids = Some (exceptions, ids)"
| "parseEvents (event # evs) language exceptions ids =
     (if EventName event = ExceptionEventName then
        (case parseException (eventString event ''exception.type'')
                (eventString event ''exception.message'')
                (eventString event ''exception.stacktrace'') language ids of
           None \<Rightarrow> None
         | Some (parsed, ids') \<Rightarrow> parseEvents evs language (exceptions @ parsed) ids')
      else parseEvents evs language exceptions ids)"

text \<open>The loop over the entries of \<open>attributes\<close> on the fallback path: it returns the
  message and the entries of the new map.\<close>

fun filterAttributes :: "AttributeMap \<Rightarrow> string \<Rightarrow> AttributeMap \<Rightarrow> string \<times> AttributeMap" where
  "filterAttributes [] message flt = (message, flt)"
| "filterAttributes ((key, value) # kvs) message flt =
     (if key = ''http.status_text''
      then filterAttributes kvs (if message = [] then StringVal value else message) flt
      else filterAttributes kvs message (AList.update key value flt))"

text \<open>The flags, from the HTTP status code attribute of the span.\<close>

definition classify :: "Span \<Rightarrow> bool \<times> bool \<times> bool" where
  "classify span =
     (case Get (SpanAttributes span) ''http.status_code'' of
        Some val \<Rightarrow>
          (let code = IntVal val
           in if 400 \<le> code \<and> code \<le> 499 then (True, False, code = 429)
              else (False, True, False))
      | None \<Rightarrow> (False, True, False))"

definition makeCause ::
  "Span \<Rightarrow> addr \<Rightarrow> Resource \<Rightarrow> store \<Rightarrow> 'id idsupply
   \<Rightarrow> ('id CauseResult \<times> store \<times> 'id idsupply) option" where
  "makeCause span attributes resource h ids =
     (if StatusCodeOf span \<noteq> StatusCodeError
      then Some (\<lparr>isError = False, isFault = False, isThrottle = False,
                   filtered = attributes, cause = None\<rparr>, h, ids)
      else do {
        (flt, cs, h', ids') \<leftarrow>
          (if hasExceptionEvent (Events span) then
             (let language = (case Get (ResourceAttributes resource) ''telemetry.sdk.language'' of
                                Some val \<Rightarrow> StringVal val | None \<Rightarrow> [])
              in case parseEvents (Events span) language [] ids of
                   None \<Rightarrow> None
                 | Some (exceptions, ids') \<Rightarrow>
                     Some (attributes, Some \<lparr>CType = CauseTypeObject, Exceptions = exceptions\<rparr>, h, ids'))
           else
             (case filterAttributes (deref h attributes) (StatusMessage span) [] of
                (message, entries) \<Rightarrow>
                  (case alloc h entries of
                     (flt, h') \<Rightarrow>
                       if message \<noteq> [] then
                         (case newSegmentID ids of
                            (hexID, ids') \<Rightarrow>
                              Some (flt, Some \<lparr>CType = CauseTypeObject,
                                      Exceptions = [\<lparr>ID = Some hexID, Type = Some [], Message = Some message,
                                                      Cause = None, Stack = None\<rparr>]\<rparr>, h', ids'))
                       else Some (flt, None, h', ids))));
        (case classify span of
           (e, f, t) \<Rightarrow>
             Some (\<lparr>isError = e, isFault = f, isThrottle = t, filtered = flt, cause = cs\<rparr>, h', ids'))
      })"

section \<open>Chains up to identifiers\<close>

text \<open>
  Identifiers are opaque to the code, so a run with one supply is the run with another
  supply, renamed. \<open>mapE f\<close> renames the identifiers of an exception, \<open>mapS f\<close>
  those of a supply, \<open>mapP f\<close> those of a parser's outcome and \<open>mapR f\<close> those of
  the result of \<open>makeCause\<close>.
\<close>

definition mapE :: "('a \<Rightarrow> 'b) \<Rightarrow> 'a Exception \<Rightarrow> 'b Exception" where
  "mapE f e = \<lparr>ID = map_option f (ID e), Type = Type e, Message = Message e,
               Cause = map_option f (Cause e), Stack = Stack e\<rparr>"

definition mapS :: "('a \<Rightarrow> 'b) \<Rightarrow> 'a idsupply \<Rightarrow> 'b idsupply" where
  "mapS f ids = (\<lambda>k. f (ids k))"

definition mapP :: "('a \<Rightarrow> 'b) \<Rightarrow> ('a Exception list \<times> 'a idsupply) option \<Rightarrow> ('b Exception list \<times> 'b idsupply) option" where
  "mapP f = map_option (map_prod (map (mapE f)) (mapS f))"


text \<open>
  The structure of a chain without its identifiers: for each exception its type, message
  and frames, whether it has an identifier, and its cause link as the position in the
  chain of the first exception that bears the identifier linked to.
\<close>

fun firstIndex :: "('a \<Rightarrow> bool) \<Rightarrow> 'a list \<Rightarrow> nat option" where
  "firstIndex P [] = None"
| "firstIndex P (x # xs) = (if P x then Some 0 else map_option Suc (firstIndex P xs))"

definition linkOf :: "'id Exception list \<Rightarrow> 'id Exception \<Rightarrow> nat option option" where
  "linkOf excs e = map_option (\<lambda>c. firstIndex (\<lambda>e'. ID e' = Some c) excs) (Cause e)"

type_synonym shape = "string option \<times> string option \<times> StackFrame list option \<times> bool \<times> nat option option"

definition shapeOf :: "'id Exception list \<Rightarrow> 'id Exception \<Rightarrow> shape" where
  "shapeOf excs e = (Type e, Message e, Stack e, ID e \<noteq> None, linkOf excs e)"

definition chainShape :: "'id Exception list \<Rightarrow> shape list" where
  "chainShape excs = map (shapeOf excs) excs"



text \<open>A second supply of distinct identifiers, of strings.\<close>

definition unary_ids :: "string idsupply" where
  "unary_ids k = replicate (Suc k) (CHR ''a'')"

text \<open>The structure of the chain a parser returns; \<open>None\<close> for a panic.\<close>

definition parsedShape :: "('id Exception list \<times> 'id idsupply) option \<Rightarrow> shape list option" where
  "parsedShape p = map_option (chainShape \<circ> fst) p"

section \<open>Example inputs and the spec's words\<close>

definition nl :: string where
  "nl = [CHR 0x0A]"

definition tab :: string where
  "tab = [CHR 0x09]"

definition nat_ids :: "nat idsupply" where
  "nat_ids = id"

definition exceptionEvent :: "string \<Rightarrow> SpanEvent" where
  "exceptionEvent stacktrace =
     \<lparr>EventName = ''exception'',
      EventAttributes = [(''exception.type'', AttributeValueString ''T''),
                         (''exception.message'', AttributeValueString ''m''),
                         (''exception.stacktrace'', AttributeValueString stacktrace)]\<rparr>"

definition resourceOf :: "string \<Rightarrow> Resource" where
  "resourceOf language =
     \<lparr>ResourceAttributes = [(''telemetry.sdk.language'', AttributeValueString language)]\<rparr>"

text \<open>A Java trace whose \<open>Caused by:\<close> line ends right after the colon.\<close>

definition truncatedCause :: string where
  "truncatedCause = ''E'' @ nl @ ''Caused by: X:''"

definition okSpan :: Span where
  "okSpan = \<lparr>StatusCodeOf = StatusCodeOk, StatusMessage = ''fine'',
             SpanAttributes = [(''http.status_code'', AttributeValueInt 404)],
             Events = [exceptionEvent truncatedCause]\<rparr>"

text \<open>The fallback message in the spec's words: the status message, else the value of
  the \<open>http.status_text\<close> attribute.\<close>

definition fallbackMessage :: "Span \<Rightarrow> AttributeMap \<Rightarrow> string" where
  "fallbackMessage span attrs =
     (if StatusMessage span \<noteq> [] then StatusMessage span
      else case Get attrs ''http.status_text'' of Some v \<Rightarrow> StringVal v | None \<Rightarrow> [])"

definition boomSpan :: Span where
  "boomSpan = \<lparr>StatusCodeOf = StatusCodeError, StatusMessage = ''boom'',
               SpanAttributes = [(''http.status_code'', AttributeValueInt 429)], Events = []\<rparr>"

definition notFoundSpan :: Span where
  "notFoundSpan = \<lparr>StatusCodeOf = StatusCodeError, StatusMessage = [],
               SpanAttributes = [], Events = []\<rparr>"

definition statusTextStore :: store where
  "statusTextStore = [[(''a'', AttributeValueInt 1), (''http.status_text'', AttributeValueString ''Not Found'')]]"

definition javaTrace :: string where
  "javaTrace = ''E'' @ nl @ tab @ ''at a.b.c(File.java:10)'' @ nl @ ''Caused by: X: y'' @ nl @
               tab @ ''at a.b.c(File.java:20)'' @ nl"

definition javaSpan :: Span where
  "javaSpan = \<lparr>StatusCodeOf = StatusCodeError, StatusMessage = [],
               SpanAttributes = [(''http.status_code'', AttributeValueInt 429)],
               Events = [exceptionEvent javaTrace]\<rparr>"

text \<open>\<open>returns r\<close>: the call returned normally (it did not panic).\<close>

definition returns :: "'a option \<Rightarrow> bool" where
  "returns r = (case r of None \<Rightarrow> False | Some x \<Rightarrow> True)"

text \<open>An error span with one exception event that carries the stack trace.\<close>

definition errorSpan :: "string \<Rightarrow> Span" where
  "errorSpan stacktrace = \<lparr>StatusCodeOf = StatusCodeError, StatusMessage = [], SpanAttributes = [],
                            Events = [exceptionEvent stacktrace]\<rparr>"

text \<open>A Python traceback whose inner exception line ends right after the colon, and a
  .NET trace cut off after \<open>:line\<close>.\<close>

definition pythonEmptyMessage :: string where
  "pythonEmptyMessage =
     ''Traceback (most recent call last):'' @ nl @
     ''  File \"a.py\", line 1, in f'' @ nl @
     ''    x()'' @ nl @
     ''ValueError:'' @ nl @ nl @
     ''During handling of the above exception, another exception occurred:'' @ nl @ nl @
     ''Traceback (most recent call last):'' @ nl @
     ''  File \"main.py\", line 14, in <module>'' @ nl @
     ''    g()'' @ nl @
     ''TypeError: bad'' @ nl"

definition dotnetTruncated :: string where
  "dotnetTruncated = ''System.Exception: boom'' @ nl @ tab @ ''at Foo.Bar() in Foo.cs:line''"




text \<open>
  The Go grammar in the spec's words. After the first line the text is a sequence of
  rounds: an optional header line (one that matches \<open>re\<close>), a label line and a next
  line. Without a header the label line is one that does not match \<open>re\<close>: a line
  that matches is taken for a header.
\<close>

type_synonym goBlock = "string option \<times> string \<times> string"

definition blockLines :: "goBlock \<Rightarrow> string list" where
  "blockLines b = (case b of (h, label, next) \<Rightarrow> (case h of None \<Rightarrow> [] | Some hl \<Rightarrow> [hl]) @ [label, next])"

definition validBlock :: "goBlock \<Rightarrow> bool" where
  "validBlock b = (case b of (h, label, next) \<Rightarrow> (case h of None \<Rightarrow> \<not> re_Match label | Some hl \<Rightarrow> re_Match hl))"

definition blockPair :: "goBlock \<Rightarrow> string \<times> string" where
  "blockPair b = (case b of (h, label, next) \<Rightarrow> (label, next))"

text \<open>
  One frame per (label line, next line) pair: its label is the label line; its path and
  line number come from the match of \<open>plnre\<close> in the next line, or, without a match,
  are those of the frame before (empty and 0 when there is none).
\<close>

fun goFramesSpec :: "string \<Rightarrow> int \<Rightarrow> (string \<times> string) list \<Rightarrow> StackFrame list" where
  "goFramesSpec path lineNumber [] = []"
| "goFramesSpec path lineNumber ((label, next) # ps) =
     (case plnre_FindStringSubmatch next of
        Some (p, d) \<Rightarrow> \<lparr>Path = Some p, Label = Some label, Line = Some (Atoi d)\<rparr> # goFramesSpec p (Atoi d) ps
      | None \<Rightarrow> \<lparr>Path = Some path, Label = Some label, Line = Some lineNumber\<rparr> # goFramesSpec path lineNumber ps)"

text \<open>A Go trace whose second pair has no position.\<close>

definition goTrace :: string where
  "goTrace = ''panic: boom'' @ nl @ ''goroutine 1 [running]:'' @ nl @ ''main.f()'' @ nl @
             tab @ ''/a/b.go:10 +0x1'' @ nl @ ''main.g()'' @ nl @ ''no position here'' @ nl"

definition goBlocks :: "goBlock list" where
  "goBlocks = [(Some ''goroutine 1 [running]:'', ''main.f()'', tab @ ''/a/b.go:10 +0x1''),
               (None, ''main.g()'', ''no position here'')]"

section \<open>Spans that did not fail\<close>

text \<open>
  Claim C2. For a span whose status code is not the error status, \<open>makeCause\<close>
  returns the flags false, false, false, the address of the input attribute map and no
  cause. It leaves the store and the identifier supply as they were, whatever the
  events and the resource hold: no map is allocated, no identifier is drawn, and a
  stack trace on which a parser would stop is never looked at.
\<close>

theorem makeCause_not_error:
  "StatusCodeOf span \<noteq> StatusCodeError \<Longrightarrow>
   makeCause span attributes resource h ids =
     Some (\<lparr>isError = False, isFault = False, isThrottle = False,
             filtered = attributes, cause = None\<rparr>, h, ids)"
  by (simp add: makeCause_def)

theorem makeCause_not_error_witness:
  "StatusCodeOf okSpan \<noteq> StatusCodeError \<and>
   makeCause okSpan 0 (resourceOf ''java'') [[(''k'', AttributeValueBool True)]] nat_ids =
     Some (\<lparr>isError = False, isFault = False, isThrottle = False,
             filtered = 0, cause = None\<rparr>, [[(''k'', AttributeValueBool True)]], nat_ids)"
proof -
  have ok: "StatusCodeOf okSpan \<noteq> StatusCodeError"
    by (simp add: okSpan_def)
  from ok makeCause_not_error [OF ok, of 0 "resourceOf ''java''" "[[(''k'', AttributeValueBool True)]]" nat_ids]
  show ?thesis by simp
qed

section \<open>Classification flags\<close>

lemma makeCause_error_flags:
  "StatusCodeOf span = StatusCodeError \<Longrightarrow> makeCause span a r h ids = Some (res, h', ids')
   \<Longrightarrow> (isError res, isFault res, isThrottle res) = classify span"
  by (auto simp: makeCause_def split: bind_splits prod.splits option.splits if_splits)

lemma filterAttributes_message_absent:
  "''http.status_text'' \<notin> fst ` set kvs \<Longrightarrow> fst (filterAttributes kvs m flt) = m"
  by (induction kvs m flt rule: filterAttributes.induct) auto

lemma filterAttributes_message:
  "distinct (map fst kvs) \<Longrightarrow>
   fst (filterAttributes kvs m flt) =
     (if m \<noteq> [] then m
      else case map_of kvs ''http.status_text'' of Some v \<Rightarrow> StringVal v | None \<Rightarrow> [])"
proof (induction kvs m flt rule: filterAttributes.induct)
  case (1 m flt)
  then show ?case by simp
next
  case (2 key v kvs m flt)
  show ?case
  proof (cases "key = ''http.status_text''")
    case True
    with 2(3) have "''http.status_text'' \<notin> fst ` set kvs" by auto
    from filterAttributes_message_absent[OF this] True show ?thesis by simp
  next
    case False
    with 2 show ?thesis by simp
  qed
qed

lemma filterAttributes_entries:
  "distinct (map fst kvs) \<Longrightarrow>
   map_of (snd (filterAttributes kvs m flt)) x =
     (if x \<noteq> ''http.status_text'' \<and> x \<in> fst ` set kvs then map_of kvs x else map_of flt x)"
proof (induction kvs m flt rule: filterAttributes.induct)
  case (1 m flt)
  then show ?case by simp
next
  case (2 key v kvs m flt)
  show ?case
  proof (cases "key = ''http.status_text''")
    case True
    with 2 show ?thesis by (auto simp: map_of_eq_None_iff)
  next
    case False
    with 2 show ?thesis by (auto simp: update_conv' map_of_eq_None_iff)
  qed
qed

lemma filterAttributes_distinct:
  "distinct (map fst flt) \<Longrightarrow> distinct (map fst (snd (filterAttributes kvs m flt)))"
  by (induction kvs m flt rule: filterAttributes.induct) (auto simp: distinct_update)

lemma makeCause_fallback:
  assumes "StatusCodeOf span = StatusCodeError" and "\<not> hasExceptionEvent (Events span)"
  shows "makeCause span a r h ids =
     (case filterAttributes (deref h a) (StatusMessage span) [] of
        (message, entries) \<Rightarrow>
          Some (\<lparr>isError = fst (classify span), isFault = fst (snd (classify span)),
                  isThrottle = snd (snd (classify span)), filtered = length h,
                  cause = (if message \<noteq> [] then
                             Some \<lparr>CType = CauseTypeObject,
                                   Exceptions = [\<lparr>ID = Some (ids 0), Type = Some [], Message = Some message,
                                                   Cause = None, Stack = None\<rparr>]\<rparr>
                           else None)\<rparr>,
                h @ [entries],
                if message \<noteq> [] then (\<lambda>k. ids (Suc k)) else ids))"
  using assms
  by (simp add: makeCause_def alloc_def newSegmentID_def split: prod.splits)

lemma fallbackMessage_filter:
  "distinct (map fst kvs) \<Longrightarrow>
   fst (filterAttributes kvs (StatusMessage span) []) = fallbackMessage span kvs"
  by (simp add: filterAttributes_message fallbackMessage_def Get_def)

lemma makeCause_events_same_map:
  assumes "StatusCodeOf span = StatusCodeError" and "hasExceptionEvent (Events span)"
    and "makeCause span a r h ids = Some (res, h', ids')"
  shows "filtered res = a \<and> h' = h"
  using assms
  by (auto simp: makeCause_def split: bind_splits prod.splits option.splits if_splits)

lemma returnsE: "returns r \<Longrightarrow> (\<And>x. r = Some x \<Longrightarrow> P) \<Longrightarrow> P"
  by (cases r) (auto simp: returns_def)

lemma javaSpan_returns:
  "returns (makeCause javaSpan 0 (resourceOf ''java'') statusTextStore nat_ids)"
  by code_simp

text \<open>
  Claim C3. For a span with the error status on which \<open>makeCause\<close> returns: when the
  span has no \<open>http.status_code\<close> attribute the flags are (is_error, is_fault,
  is_throttle) = (false, true, false); when it has one whose integer value is in
  [400, 499], is_error is true, is_fault is false and is_throttle is true exactly for
  429; for any other value is_fault is true and the other two are false. The call does
  return whenever the span has no exception event; with exception events it returns
  unless a stack-trace parser panics.
\<close>

theorem makeCause_flags:
  assumes "StatusCodeOf span = StatusCodeError"
  shows "(\<not> hasExceptionEvent (Events span) \<longrightarrow> makeCause span attributes resource h ids \<noteq> None) \<and>
    (\<forall>res h' ids'. makeCause span attributes resource h ids = Some (res, h', ids') \<longrightarrow>
       (case Get (SpanAttributes span) ''http.status_code'' of
          None \<Rightarrow> \<not> isError res \<and> isFault res \<and> \<not> isThrottle res
        | Some val \<Rightarrow>
            if 400 \<le> IntVal val \<and> IntVal val \<le> 499
            then isError res \<and> \<not> isFault res \<and> (isThrottle res \<longleftrightarrow> IntVal val = 429)
            else \<not> isError res \<and> isFault res \<and> \<not> isThrottle res))"
proof (intro conjI allI impI)
  assume "\<not> hasExceptionEvent (Events span)"
  from makeCause_fallback[OF assms this, of attributes resource h ids]
  show "makeCause span attributes resource h ids \<noteq> None"
    by (simp split: prod.splits)
next
  fix res h' ids'
  assume "makeCause span attributes resource h ids = Some (res, h', ids')"
  from makeCause_error_flags[OF assms this]
  show "case Get (SpanAttributes span) ''http.status_code'' of
          None \<Rightarrow> \<not> isError res \<and> isFault res \<and> \<not> isThrottle res
        | Some val \<Rightarrow>
            if 400 \<le> IntVal val \<and> IntVal val \<le> 499
            then isError res \<and> \<not> isFault res \<and> (isThrottle res \<longleftrightarrow> IntVal val = 429)
            else \<not> isError res \<and> isFault res \<and> \<not> isThrottle res"
    by (auto simp: classify_def Let_def split: option.splits if_splits)
qed

theorem makeCause_flags_witness:
  "StatusCodeOf javaSpan = StatusCodeError \<and>
   map_option (isError \<circ> fst) (makeCause javaSpan 0 (resourceOf ''java'') statusTextStore nat_ids) = Some True \<and>
   map_option (isFault \<circ> fst) (makeCause javaSpan 0 (resourceOf ''java'') statusTextStore nat_ids) = Some False \<and>
   map_option (isThrottle \<circ> fst) (makeCause javaSpan 0 (resourceOf ''java'') statusTextStore nat_ids) = Some True"
proof -
  have a: "StatusCodeOf javaSpan = StatusCodeError" by (simp add: javaSpan_def)
  have g: "Get (SpanAttributes javaSpan) ''http.status_code'' = Some (AttributeValueInt 429)"
    by (simp add: javaSpan_def Get_def)
  from javaSpan_returns obtain x where x: "makeCause javaSpan 0 (resourceOf ''java'') statusTextStore nat_ids = Some x"
    by (rule returnsE)
  obtain res h' ids' where "x = (res, h', ids')" by (cases x)
  with x makeCause_flags[OF a, where attributes = 0 and resource = "resourceOf ''java''" and h = statusTextStore and ids = nat_ids] a
  show ?thesis by (simp add: g IntVal_def)
qed

text \<open>
  Claim C10. On every return of \<open>makeCause\<close>, is_error and is_fault are not both
  true, and is_throttle is true only when is_error is; for a span with the error status
  exactly one of is_error and is_fault is true.
\<close>

theorem makeCause_flag_invariant:
  assumes "makeCause span attributes resource h ids = Some (res, h', ids')"
  shows "\<not> (isError res \<and> isFault res) \<and> (isThrottle res \<longrightarrow> isError res) \<and>
         (StatusCodeOf span = StatusCodeError \<longrightarrow> isError res \<noteq> isFault res)"
proof (cases "StatusCodeOf span = StatusCodeError")
  case True
  from makeCause_error_flags[OF True assms] True show ?thesis
    by (auto simp: classify_def Let_def split: option.splits if_splits)
next
  case False
  with assms show ?thesis by (auto simp: makeCause_def)
qed

theorem makeCause_flag_invariant_witness:
  "map_option (isError \<circ> fst) (makeCause javaSpan 0 (resourceOf ''java'') statusTextStore nat_ids) = Some True \<and>
   map_option (isFault \<circ> fst) (makeCause javaSpan 0 (resourceOf ''java'') statusTextStore nat_ids) = Some False"
proof -
  have a: "StatusCodeOf javaSpan = StatusCodeError" by (simp add: javaSpan_def)
  have c: "classify javaSpan = (True, False, True)"
    by (simp add: classify_def javaSpan_def Get_def IntVal_def)
  from javaSpan_returns obtain x where x: "makeCause javaSpan 0 (resourceOf ''java'') statusTextStore nat_ids = Some x"
    by (rule returnsE)
  obtain res h' ids' where r: "x = (res, h', ids')" by (cases x)
  from makeCause_error_flags[OF a x[unfolded r]] c have "isError res" by simp
  with makeCause_flag_invariant[OF x[unfolded r]] a x r
  show ?thesis by simp
qed

section \<open>The fallback path\<close>

text \<open>
  Claim C5. For a span with the error status and no exception event, \<open>makeCause\<close>
  returns. If the fallback message (the status message, else the value of the
  \<open>http.status_text\<close> attribute) is not empty, the cause holds exactly one exception
  with the next identifier of the supply, the empty type, that message, no cause link
  and no stack, and one identifier has been drawn; if the message is empty the cause is
  nil and no identifier has been drawn.
\<close>

theorem makeCause_no_events:
  assumes "StatusCodeOf span = StatusCodeError"
    and "\<not> hasExceptionEvent (Events span)"
    and "distinct (map fst (deref h attributes))"
  shows "\<exists>res h' ids'.
     makeCause span attributes resource h ids = Some (res, h', ids') \<and>
     (if fallbackMessage span (deref h attributes) \<noteq> []
      then cause res = Some \<lparr>CType = CauseTypeObject,
                             Exceptions = [\<lparr>ID = Some (ids 0), Type = Some [],
                                             Message = Some (fallbackMessage span (deref h attributes)),
                                             Cause = None, Stack = None\<rparr>]\<rparr>
           \<and> ids' = (\<lambda>k. ids (Suc k))
      else cause res = None \<and> ids' = ids)"
proof -
  obtain message entries where f: "filterAttributes (deref h attributes) (StatusMessage span) [] = (message, entries)"
    by (cases "filterAttributes (deref h attributes) (StatusMessage span) []")
  with fallbackMessage_filter[OF assms(3), of span] have m: "fallbackMessage span (deref h attributes) = message"
    by simp
  show ?thesis
    unfolding makeCause_fallback[OF assms(1,2)] f m by simp
qed

theorem makeCause_no_events_witness:
  "StatusCodeOf boomSpan = StatusCodeError \<and> hasExceptionEvent (Events boomSpan) = False \<and>
   distinct (map fst (deref statusTextStore 0)) \<and>
   map_option (cause \<circ> fst) (makeCause boomSpan 0 (resourceOf ''java'') statusTextStore nat_ids) =
     Some (Some \<lparr>CType = CauseTypeObject,
                  Exceptions = [\<lparr>ID = Some 0, Type = Some [], Message = Some ''boom'',
                                  Cause = None, Stack = None\<rparr>]\<rparr>)"
proof -
  have a: "StatusCodeOf boomSpan = StatusCodeError" by (simp add: boomSpan_def)
  have b: "\<not> hasExceptionEvent (Events boomSpan)" by (simp add: boomSpan_def)
  have c: "distinct (map fst (deref statusTextStore 0))" by (simp add: deref_def statusTextStore_def)
  have m: "fallbackMessage boomSpan (deref statusTextStore 0) = ''boom''"
    by (simp add: fallbackMessage_def boomSpan_def)
  from makeCause_no_events[OF a b c, where resource = "resourceOf ''java''" and ids = nat_ids] a b c
  show ?thesis by (auto simp: m nat_ids_def)
qed

text \<open>
  Claim C6, as stated, fails: the \<open>http.status_text\<close> entry is removed on the
  fallback path also when its value is not folded into the message. With the status
  message \<open>boom\<close> the exception's message is \<open>boom\<close>, and the map returned, at the
  new address 1, has lost the entry \<open>http.status_text = "Not Found"\<close>.
\<close>

theorem filtered_counterexample:
  "Get (deref statusTextStore 0) ''http.status_text'' = Some (AttributeValueString ''Not Found'') \<and>
   map_option (cause \<circ> fst) (makeCause boomSpan 0 (resourceOf ''java'') statusTextStore nat_ids) =
     Some (Some \<lparr>CType = CauseTypeObject,
                  Exceptions = [\<lparr>ID = Some 0, Type = Some [], Message = Some ''boom'',
                                  Cause = None, Stack = None\<rparr>]\<rparr>) \<and>
   map_option (filtered \<circ> fst) (makeCause boomSpan 0 (resourceOf ''java'') statusTextStore nat_ids) = Some 1 \<and>
   map_option (fst \<circ> snd) (makeCause boomSpan 0 (resourceOf ''java'') statusTextStore nat_ids) =
     Some (statusTextStore @ [[(''a'', AttributeValueInt 1)]])"
proof -
  have a: "StatusCodeOf boomSpan = StatusCodeError" by (simp add: boomSpan_def)
  have b: "\<not> hasExceptionEvent (Events boomSpan)" by (simp add: boomSpan_def)
  show ?thesis
    unfolding makeCause_fallback[OF a b]
    by (simp add: boomSpan_def statusTextStore_def deref_def Get_def nat_ids_def)
qed

text \<open>
  Claim C6, amended. On the fallback path (error status, no exception event) the map
  returned is a newly allocated one, the input map is left as it was, and the new map
  holds every entry of the input map but \<open>http.status_text\<close>, which is left out
  whether or not its value was folded into the message; when the status message is
  empty and \<open>http.status_text\<close> has a non-empty string value, that value is the
  message of the single exception. When the span has an exception event and
  \<open>makeCause\<close> returns, the map returned is the input map object itself and the store
  is unchanged.
\<close>

theorem makeCause_filtered:
  assumes "StatusCodeOf span = StatusCodeError"
    and "distinct (map fst (deref h attributes))"
    and "attributes < length h"
  shows
    "(\<not> hasExceptionEvent (Events span) \<longrightarrow>
        (\<exists>res entries ids'.
           makeCause span attributes resource h ids = Some (res, h @ [entries], ids') \<and>
           filtered res = length h \<and> filtered res \<noteq> attributes \<and>
           deref (h @ [entries]) (filtered res) = entries \<and>
           deref (h @ [entries]) attributes = deref h attributes \<and>
           distinct (map fst entries) \<and>
           (\<forall>key. Get entries key =
              (if key = ''http.status_text'' then None else Get (deref h attributes) key)) \<and>
           (\<forall>v. StatusMessage span = [] \<and> Get (deref h attributes) ''http.status_text'' = Some v
                  \<and> StringVal v \<noteq> []
              \<longrightarrow> map Message (case cause res of None \<Rightarrow> [] | Some c \<Rightarrow> Exceptions c) = [Some (StringVal v)]))) \<and>
     (hasExceptionEvent (Events span) \<longrightarrow>
        (\<forall>res h' ids'. makeCause span attributes resource h ids = Some (res, h', ids') \<longrightarrow>
           filtered res = attributes \<and> h' = h))"
proof (intro conjI impI allI)
  assume ne: "\<not> hasExceptionEvent (Events span)"
  obtain message entries where f:
    "filterAttributes (deref h attributes) (StatusMessage span) [] = (message, entries)"
    by (cases "filterAttributes (deref h attributes) (StatusMessage span) []")
  have m: "message = fallbackMessage span (deref h attributes)"
    using fallbackMessage_filter[OF assms(2), of span] f by simp
  have e: "entries = snd (filterAttributes (deref h attributes) (StatusMessage span) [])"
    using f by simp
  have d: "distinct (map fst entries)"
    unfolding e by (rule filterAttributes_distinct) simp
  have g: "Get entries key =
      (if key = ''http.status_text'' then None else Get (deref h attributes) key)" for key
  proof (cases "key \<in> fst ` set (deref h attributes)")
    case True
    then show ?thesis
      unfolding e Get_def filterAttributes_entries[OF assms(2)] by simp
  next
    case False
    then have "map_of (deref h attributes) key = None"
      by (simp add: map_of_eq_None_iff)
    with False show ?thesis
      unfolding e Get_def filterAttributes_entries[OF assms(2)] by simp
  qed
  have c: "map Message (case (if message \<noteq> [] then
                             Some \<lparr>CType = CauseTypeObject,
                                   Exceptions = [\<lparr>ID = Some (ids 0), Type = Some [], Message = Some message,
                                                   Cause = None, Stack = None\<rparr>]\<rparr>
                           else None) of None \<Rightarrow> [] | Some c \<Rightarrow> Exceptions c) = [Some (StringVal v)]"
    if "StatusMessage span = []" "Get (deref h attributes) ''http.status_text'' = Some v" "StringVal v \<noteq> []" for v
    using that m by (simp add: fallbackMessage_def)
  show "\<exists>res entries ids'.
           makeCause span attributes resource h ids = Some (res, h @ [entries], ids') \<and>
           filtered res = length h \<and> filtered res \<noteq> attributes \<and>
           deref (h @ [entries]) (filtered res) = entries \<and>
           deref (h @ [entries]) attributes = deref h attributes \<and>
           distinct (map fst entries) \<and>
           (\<forall>key. Get entries key =
              (if key = ''http.status_text'' then None else Get (deref h attributes) key)) \<and>
           (\<forall>v. StatusMessage span = [] \<and> Get (deref h attributes) ''http.status_text'' = Some v
                  \<and> StringVal v \<noteq> []
              \<longrightarrow> map Message (case cause res of None \<Rightarrow> [] | Some c \<Rightarrow> Exceptions c) = [Some (StringVal v)])"
    unfolding makeCause_fallback[OF assms(1) ne] f
    using assms(3) d g c
    by (simp add: deref_def nth_append)
next
  fix res h' ids'
  assume "hasExceptionEvent (Events span)"
    and "makeCause span attributes resource h ids = Some (res, h', ids')"
  from makeCause_events_same_map[OF assms(1) this]
  show "filtered res = attributes" and "h' = h" by simp_all
qed

theorem makeCause_filtered_witness:
  "StatusCodeOf notFoundSpan = StatusCodeError \<and> distinct (map fst (deref statusTextStore 0)) \<and>
   0 < length statusTextStore \<and> hasExceptionEvent (Events notFoundSpan) = False \<and>
   map_option (fst \<circ> snd) (makeCause notFoundSpan 0 (resourceOf ''java'') statusTextStore nat_ids)
     = Some (statusTextStore @ [[(''a'', AttributeValueInt 1)]]) \<and>
   map_option (filtered \<circ> fst) (makeCause notFoundSpan 0 (resourceOf ''java'') statusTextStore nat_ids) = Some 1 \<and>
   map_option (cause \<circ> fst) (makeCause notFoundSpan 0 (resourceOf ''java'') statusTextStore nat_ids) =
     Some (Some \<lparr>CType = CauseTypeObject,
                  Exceptions = [\<lparr>ID = Some 0, Type = Some [], Message = Some ''Not Found'',
                                  Cause = None, Stack = None\<rparr>]\<rparr>)"
proof -
  have a: "StatusCodeOf notFoundSpan = StatusCodeError" by (simp add: notFoundSpan_def)
  have b: "\<not> hasExceptionEvent (Events notFoundSpan)" by (simp add: notFoundSpan_def)
  have c: "distinct (map fst (deref statusTextStore 0))" by (simp add: deref_def statusTextStore_def)
  have d: "0 < length statusTextStore" by (simp add: statusTextStore_def)
  from makeCause_filtered[OF a c d, where resource = "resourceOf ''java''" and ids = nat_ids] b
  obtain res entries ids' where
    r: "makeCause notFoundSpan 0 (resourceOf ''java'') statusTextStore nat_ids
          = Some (res, statusTextStore @ [entries], ids')"
    and f: "filtered res = length statusTextStore"
    by blast
  have e: "makeCause notFoundSpan 0 (resourceOf ''java'') statusTextStore nat_ids =
      Some (\<lparr>isError = False, isFault = True, isThrottle = False, filtered = 1,
              cause = Some \<lparr>CType = CauseTypeObject,
                  Exceptions = [\<lparr>ID = Some 0, Type = Some [], Message = Some ''Not Found'',
                                  Cause = None, Stack = None\<rparr>]\<rparr>\<rparr>,
            statusTextStore @ [[(''a'', AttributeValueInt 1)]], \<lambda>k. nat_ids (Suc k))"
    unfolding makeCause_fallback[OF a b]
    by (simp add: notFoundSpan_def statusTextStore_def deref_def StringVal_def classify_def Get_def nat_ids_def)
  from r e a b c d show ?thesis by auto
qed

section \<open>Renaming identifiers\<close>

lemma mapP_simps [simp]: "mapP f None = None" "mapP f (Some (es, ids)) = Some (map (mapE f) es, mapS f ids)"
  by (simp_all add: mapP_def)

lemma push_frame_rename:
  "push_frame cur fr (map (mapE f) excs) = map (mapE f) (push_frame cur fr excs)"
  by (cases "cur < length excs") (simp_all add: push_frame_def map_update mapE_def list_update_beyond)

lemma reset_stack_rename:
  "reset_stack cur (map (mapE f) excs) = map (mapE f) (reset_stack cur excs)"
  by (cases "cur < length excs") (simp_all add: reset_stack_def map_update mapE_def list_update_beyond)

lemma push_cause_rename:
  "push_cause ct cm (map (mapE f) excs) (mapS f ids) = mapP f (push_cause ct cm excs ids)"
  by (cases "excs = []")
     (auto simp add: push_cause_def newSegmentID_def Let_def map_update mapE_def nth_append mapS_def)

lemma push_cause_length:
  "push_cause ct cm excs ids = Some (excs', ids') \<Longrightarrow> length excs' = Suc (length excs)"
  by (auto simp: push_cause_def newSegmentID_def Let_def split: if_splits)

declare javaLoop.simps [simp del]

lemma javaLoop_rename:
  "javaLoop line r cur (map (mapE f) excs) (mapS f ids) = mapP f (javaLoop line r cur excs ids)"
proof (induction line r cur excs ids rule: javaLoop.induct)
  case (1 line r cur exceptions ids)
  show ?case
  proof (cases "HasPrefix line tab_at")
    case True
    show ?thesis
    proof (cases "javaFrame line")
      case None
      with True show ?thesis by (simp add: javaLoop.simps[of line])
    next
      case (Some fr)
      show ?thesis
      proof (cases r)
        case Nil
        with True Some show ?thesis
          by (cases fr) (simp_all add: javaLoop.simps[of line] push_frame_rename)
      next
        case (Cons l r')
        with True Some 1(1)[OF True Some refl Cons] show ?thesis
          by (cases fr) (simp_all add: javaLoop.simps[of line] push_frame_rename)
      qed
    qed
  next
    case False
    show ?thesis
    proof (cases "HasPrefix line ''Caused by: ''")
      case cb: True
      show ?thesis
      proof (cases "javaCauseHead line")
        case None
        with False cb show ?thesis by (simp add: javaLoop.simps[of line])
      next
        case (Some hd)
        obtain causeType causeMessage0 where hd: "hd = (causeType, causeMessage0)" by (cases hd)
        obtain causeMessage line' r' where pk: "javaPeek causeMessage0 r = (causeMessage, line', r')"
          by (cases "javaPeek causeMessage0 r")
        show ?thesis
        proof (cases "push_cause causeType causeMessage exceptions ids")
          case None
          with False cb Some hd pk show ?thesis
            by (simp add: javaLoop.simps[of line] push_cause_rename)
        next
          case pc: (Some p)
          obtain exceptions' ids' where p: "p = (exceptions', ids')" by (cases p)
          from 1(2)[OF False cb Some[unfolded hd] refl pk[symmetric] refl pc[unfolded p] refl]
          have "javaLoop line' r' (length exceptions' - 1) (map (mapE f) exceptions') (mapS f ids') =
                mapP f (javaLoop line' r' (length exceptions' - 1) exceptions' ids')" .
          with False cb Some hd pk pc p show ?thesis
            by (simp add: javaLoop.simps[of line] push_cause_rename)
        qed
      qed
    next
      case ncb: False
      show ?thesis
      proof (cases r)
        case Nil
        with False ncb show ?thesis by (simp add: javaLoop.simps[of line])
      next
        case (Cons l r')
        with False ncb 1(3)[OF False ncb Cons] show ?thesis
          by (simp add: javaLoop.simps[of line])
      qed
    qed
  qed
qed

declare pythonLoop.simps [simp del]

lemma pythonLoop_rename:
  "pythonLoop lines lineIdx cur (map (mapE f) excs) (mapS f ids) = mapP f (pythonLoop lines lineIdx cur excs ids)"
proof (induction lines lineIdx cur excs ids rule: pythonLoop.induct)
  case (1 lines lineIdx cur exceptions ids)
  show ?case
  proof (cases "at lines lineIdx")
    case None
    then show ?thesis by (simp add: pythonLoop.simps[of lines lineIdx])
  next
    case (Some line)
    show ?thesis
    proof (cases "HasPrefix line ''  File ''")
      case True
      show ?thesis
      proof (cases "pythonFrame line")
        case None
        with Some True show ?thesis by (simp add: pythonLoop.simps[of lines lineIdx])
      next
        case fr: (Some fr)
        show ?thesis
        proof (cases "lineIdx - 1 < 0")
          case l: True
          with Some True fr show ?thesis
            by (cases fr) (simp_all add: pythonLoop.simps[of lines lineIdx] push_frame_rename)
        next
          case l: False
          with Some True fr 1(1)[OF Some True fr refl l] show ?thesis
            by (cases fr) (simp_all add: pythonLoop.simps[of lines lineIdx] push_frame_rename)
        qed
      qed
    next
      case False
      show ?thesis
      proof (cases "HasPrefix line during_handling")
        case dh: True
        show ?thesis
        proof (cases "pythonNextFile lines (lineIdx - 1)")
          case None
          with Some False dh show ?thesis by (simp add: pythonLoop.simps[of lines lineIdx])
        next
          case nf: (Some nextFileLineIdx)
          show ?thesis
          proof (cases "nextFileLineIdx < 0")
            case True
            with Some False dh nf show ?thesis by (simp add: pythonLoop.simps[of lines lineIdx])
          next
            case nn: False
            show ?thesis
            proof (cases "pythonCauseHead lines lineIdx nextFileLineIdx")
              case None
              with Some False dh nf nn show ?thesis by (simp add: pythonLoop.simps[of lines lineIdx])
            next
              case ch: (Some hd)
              show ?thesis
              proof (cases hd)
                case None
                with Some False dh nf nn ch show ?thesis by (simp add: pythonLoop.simps[of lines lineIdx])
              next
                case h: (Some tm)
                obtain causeType causeMessage where tm: "tm = (causeType, causeMessage)" by (cases tm)
                show ?thesis
                proof (cases "push_cause causeType causeMessage exceptions ids")
                  case None
                  with Some False dh nf nn ch h tm show ?thesis
                    by (simp add: pythonLoop.simps[of lines lineIdx] push_cause_rename)
                next
                  case pc: (Some p)
                  obtain exceptions' ids' where p: "p = (exceptions', ids')" by (cases p)
                  from 1(2)[OF Some False dh nf nn ch[unfolded h tm] refl refl pc[unfolded p] refl]
                  have "pythonLoop lines nextFileLineIdx (length exceptions' - 1) (map (mapE f) exceptions') (mapS f ids') =
                        mapP f (pythonLoop lines nextFileLineIdx (length exceptions' - 1) exceptions' ids')" .
                  with Some False dh nf nn ch h tm pc p show ?thesis
                    by (simp add: pythonLoop.simps[of lines lineIdx] push_cause_rename)
                qed
              qed
            qed
          qed
        qed
      next
        case ndh: False
        show ?thesis
        proof (cases "lineIdx - 1 < 0")
          case True
          with Some False ndh show ?thesis by (simp add: pythonLoop.simps[of lines lineIdx])
        next
          case l: False
          with Some False ndh 1(3)[OF Some False ndh l] show ?thesis
            by (simp add: pythonLoop.simps[of lines lineIdx])
        qed
      qed
    qed
  qed
qed

declare jsLoop.simps [simp del] dotnetLoop.simps [simp del] goLoop.simps [simp del]

lemma jsLoop_rename:
  "jsLoop line r cur (map (mapE f) excs) = map_option (map (mapE f)) (jsLoop line r cur excs)"
proof (induction line r cur excs rule: jsLoop.induct)
  case (1 line r cur exceptions)
  show ?case
  proof (cases "if HasPrefix line ''    at '' then jsFrame line else Some None")
    case None
    then show ?thesis by (simp add: jsLoop.simps[of line])
  next
    case (Some fr)
    show ?thesis
    proof (cases r)
      case Nil
      with Some show ?thesis
        by (cases fr) (simp_all add: jsLoop.simps[of line] push_frame_rename)
    next
      case (Cons l r')
      with Some 1[OF Some refl Cons] show ?thesis
        by (cases fr) (simp_all add: jsLoop.simps[of line] push_frame_rename)
    qed
  qed
qed

lemma dotnetLoop_rename:
  "dotnetLoop line r cur (map (mapE f) excs) = map_option (map (mapE f)) (dotnetLoop line r cur excs)"
proof (induction line r cur excs rule: dotnetLoop.induct)
  case (1 line r cur exceptions)
  show ?case
  proof (cases "if HasPrefix line tab_at then dotnetFrame line else Some None")
    case None
    then show ?thesis by (simp add: dotnetLoop.simps[of line])
  next
    case (Some fr)
    show ?thesis
    proof (cases r)
      case Nil
      with Some show ?thesis
        by (cases fr) (simp_all add: dotnetLoop.simps[of line] push_frame_rename)
    next
      case (Cons l r')
      with Some 1[OF Some refl Cons] show ?thesis
        by (cases fr) (simp_all add: dotnetLoop.simps[of line] push_frame_rename)
    qed
  qed
qed

lemma goLoop_rename:
  "goLoop line r path lineNumber cur (map (mapE f) excs) = map (mapE f) (goLoop line r path lineNumber cur excs)"
proof (induction line r path lineNumber cur excs rule: goLoop.induct)
  case (1 line r path lineNumber cur exceptions)
  obtain label r1 where a: "(if re_Match line then (case ReadLine r of (l, _, r') \<Rightarrow> (l, r')) else (line, r)) = (label, r1)"
    by (cases "(if re_Match line then (case ReadLine r of (l, _, r') \<Rightarrow> (l, r')) else (line, r))")
  obtain line2 e2 r2 where b: "ReadLine r1 = (line2, e2, r2)" by (cases "ReadLine r1")
  obtain path' lineNumber' where c: "(case plnre_FindStringSubmatch line2 of
                        Some (p, d) \<Rightarrow> (p, Atoi d)
                      | None \<Rightarrow> (path, lineNumber)) = (path', lineNumber')"
    by (cases "(case plnre_FindStringSubmatch line2 of
                        Some (p, d) \<Rightarrow> (p, Atoi d)
                      | None \<Rightarrow> (path, lineNumber))")
  obtain line3 err r3 where d: "ReadLine r2 = (line3, err, r3)" by (cases "ReadLine r2")
  show ?case
  proof (cases err)
    case True
    with a b c d show ?thesis
      by (simp add: goLoop.simps[of line r] push_frame_rename)
  next
    case False
    from 1[OF a[symmetric] b[symmetric] refl c[symmetric] refl d[symmetric] refl False]
    have "goLoop line3 r3 path' lineNumber' cur
            (map (mapE f) (push_frame cur \<lparr>Path = Some path', Label = Some label, Line = Some lineNumber'\<rparr> exceptions)) =
          map (mapE f) (goLoop line3 r3 path' lineNumber' cur
            (push_frame cur \<lparr>Path = Some path', Label = Some label, Line = Some lineNumber'\<rparr> exceptions))" .
    with False a b c d show ?thesis
      by (simp add: goLoop.simps[of line r] push_frame_rename)
  qed
qed

lemma fillJavaStacktrace_rename:
  "fillJavaStacktrace st (map (mapE f) excs) (mapS f ids) = mapP f (fillJavaStacktrace st excs ids)"
  by (simp add: fillJavaStacktrace_def reset_stack_rename javaLoop_rename split: prod.splits)

lemma fillPythonStacktrace_rename:
  "fillPythonStacktrace st (map (mapE f) excs) (mapS f ids) = mapP f (fillPythonStacktrace st excs ids)"
  by (simp add: fillPythonStacktrace_def Let_def reset_stack_rename pythonLoop_rename)

lemma fillJavaScriptStacktrace_rename:
  "fillJavaScriptStacktrace st (map (mapE f) excs) (mapS f ids) = mapP f (fillJavaScriptStacktrace st excs ids)"
  by (simp add: fillJavaScriptStacktrace_def reset_stack_rename jsLoop_rename mapP_def
        option.map_comp comp_def split: prod.splits)

lemma fillDotnetStacktrace_rename:
  "fillDotnetStacktrace st (map (mapE f) excs) (mapS f ids) = mapP f (fillDotnetStacktrace st excs ids)"
  by (simp add: fillDotnetStacktrace_def reset_stack_rename dotnetLoop_rename mapP_def
        option.map_comp comp_def split: prod.splits)

lemma fillGoStacktrace_rename:
  "fillGoStacktrace st (map (mapE f) excs) (mapS f ids) = mapP f (fillGoStacktrace st excs ids)"
  by (simp add: fillGoStacktrace_def reset_stack_rename goLoop_rename split: prod.splits)

lemma newSegmentID_rename:
  "newSegmentID (mapS f ids) = (f (fst (newSegmentID ids)), mapS f (snd (newSegmentID ids)))"
  by (simp add: newSegmentID_def mapS_def)

lemma parseException_unfold:
  "parseException ty msg st lang ids =
     (let exceptions = [\<lparr>ID = Some (ids 0), Type = Some ty, Message = Some msg, Cause = None, Stack = None\<rparr>];
          ids' = (\<lambda>k. ids (Suc k))
      in if st = [] then Some (exceptions, ids')
         else if lang = ''java'' then fillJavaStacktrace st exceptions ids'
         else if lang = ''python'' then fillPythonStacktrace st exceptions ids'
         else if lang = ''javascript'' then fillJavaScriptStacktrace st exceptions ids'
         else if lang = ''dotnet'' then fillDotnetStacktrace st exceptions ids'
         else if lang = ''php'' then fillJavaStacktrace st exceptions ids'
         else if lang = ''go'' then fillGoStacktrace st exceptions ids'
         else Some (exceptions, ids'))"
  by (simp add: parseException_def newSegmentID_def Let_def)

lemma parseException_rename:
  "parseException ty msg st lang (mapS f ids) = mapP f (parseException ty msg st lang ids)"
proof -
  have e: "[\<lparr>ID = Some (mapS f ids 0), Type = Some ty, Message = Some msg, Cause = None, Stack = None\<rparr>]
           = map (mapE f) [\<lparr>ID = Some (ids 0), Type = Some ty, Message = Some msg, Cause = None, Stack = None\<rparr>]"
    by (simp add: mapE_def mapS_def)
  have t: "(\<lambda>k. mapS f ids (Suc k)) = mapS f (\<lambda>k. ids (Suc k))"
    by (simp add: mapS_def)
  show ?thesis
    unfolding parseException_unfold[of ty msg st lang "mapS f ids"] parseException_unfold[of ty msg st lang ids]
      Let_def e t
      fillJavaStacktrace_rename fillPythonStacktrace_rename fillJavaScriptStacktrace_rename
      fillDotnetStacktrace_rename fillGoStacktrace_rename
    by simp
qed



lemma firstIndex_rename:
  "inj f \<Longrightarrow> firstIndex (\<lambda>e'. ID e' = Some (f c)) (map (mapE f) excs) = firstIndex (\<lambda>e'. ID e' = Some c) excs"
proof (induction excs)
  case Nil
  then show ?case by simp
next
  case (Cons e excs)
  have "(map_option f (ID e) = Some (f c)) = (ID e = Some c)"
    using Cons(2) by (cases "ID e") (auto dest: injD)
  with Cons show ?case by (simp add: mapE_def)
qed

lemma chainShape_rename:
  "inj f \<Longrightarrow> chainShape (map (mapE f) excs) = chainShape excs"
proof -
  assume i: "inj f"
  have "shapeOf (map (mapE f) excs) (mapE f e) = shapeOf excs e" for e
    using firstIndex_rename[OF i, of _ excs]
    by (cases "Cause e"; cases "ID e") (simp_all add: shapeOf_def linkOf_def mapE_def)
  then show ?thesis by (simp add: chainShape_def)
qed

lemma mapS_nat_ids: "mapS ids nat_ids = ids"
  by (simp add: mapS_def nat_ids_def)



lemma inj_unary_ids: "inj unary_ids"
proof (rule injI)
  fix x y assume "unary_ids x = unary_ids y"
  then have "length (unary_ids x) = length (unary_ids y)" by simp
  then show "x = y" by (simp add: unary_ids_def)
qed

section \<open>Determinism up to identifiers\<close>



lemma parseException_canonical:
  "parseException ty msg st lang ids = mapP ids (parseException ty msg st lang nat_ids)"
  using parseException_rename[of ty msg st lang ids nat_ids] by (simp add: mapS_nat_ids)

lemma parsedShape_rename: "inj f \<Longrightarrow> parsedShape (mapP f p) = parsedShape p"
  by (cases p) (auto simp: parsedShape_def chainShape_rename)

lemma parseException_php_alias:
  "parseException exceptionType message stacktrace ''php'' ids =
   parseException exceptionType message stacktrace ''java'' ids"
  by (simp add: parseException_unfold Let_def)

section \<open>The two languages of one grammar\<close>

text \<open>
  Claim C8. For every type, message and stack trace, \<open>parseException\<close> with the
  language \<open>php\<close> is \<open>parseException\<close> with the language \<open>java\<close>: with the
  same identifier supply the outcomes are equal (a panic included), and with any two
  supplies of distinct identifiers the chains have the same structure.
\<close>

theorem parseException_php_java:
  "parseException exceptionType message stacktrace ''php'' ids =
     parseException exceptionType message stacktrace ''java'' ids \<and>
   (inj ids1 \<and> inj ids2 \<longrightarrow>
      parsedShape (parseException exceptionType message stacktrace ''php'' ids1) =
      parsedShape (parseException exceptionType message stacktrace ''java'' ids2))"
proof -
  note e = parseException_php_alias
  show ?thesis
  proof (intro conjI impI)
    show "parseException exceptionType message stacktrace ''php'' ids =
          parseException exceptionType message stacktrace ''java'' ids" by (rule e)
  next
    assume i: "inj ids1 \<and> inj ids2"
    have "parsedShape (parseException exceptionType message stacktrace ''php'' ids1) =
          parsedShape (parseException exceptionType message stacktrace ''java'' nat_ids)"
      unfolding e parseException_canonical[of _ _ _ _ ids1] using i by (simp add: parsedShape_rename)
    also have "\<dots> = parsedShape (parseException exceptionType message stacktrace ''java'' ids2)"
      unfolding parseException_canonical[of _ _ _ _ ids2] using i by (simp add: parsedShape_rename)
    finally show "parsedShape (parseException exceptionType message stacktrace ''php'' ids1) =
      parsedShape (parseException exceptionType message stacktrace ''java'' ids2)" .
  qed
qed

theorem parseException_php_java_witness:
  "inj nat_ids \<and> inj unary_ids \<and>
   parsedShape (parseException ''T'' ''m'' javaTrace ''php'' nat_ids) =
   parsedShape (parseException ''T'' ''m'' javaTrace ''java'' unary_ids) \<and>
   returns (parseException ''T'' ''m'' javaTrace ''php'' nat_ids)"
proof -
  have a: "inj nat_ids" by (simp add: nat_ids_def)
  have r: "returns (parseException ''T'' ''m'' javaTrace ''php'' nat_ids)" by code_simp
  from parseException_php_java[of "''T''" "''m''" javaTrace nat_ids nat_ids unary_ids] a inj_unary_ids r
  show ?thesis by blast
qed

section \<open>Malformed stack traces\<close>

text \<open>
  Claim C1 says that \<open>makeCause\<close> returns normally on every error span, however
  malformed the stack trace. The code does not: on each of these three inputs a slice
  expression of a parser is out of range and the call panics. In the Java parser it is
  \<open>causeType[colonIdx+2:]\<close> on a \<open>Caused by:\<close> line that ends with the colon, in the
  Python parser \<open>message[colonIdx+2:]\<close> on an exception line that ends with the colon,
  in the .NET parser \<open>lineStr[5:]\<close> on a frame that ends with \<open>:line\<close>.
\<close>

theorem makeCause_panics:
  "\<not> returns (makeCause (errorSpan truncatedCause) 0 (resourceOf ''java'') [[]] nat_ids) \<and>
   \<not> returns (makeCause (errorSpan pythonEmptyMessage) 0 (resourceOf ''python'') [[]] nat_ids) \<and>
   \<not> returns (makeCause (errorSpan dotnetTruncated) 0 (resourceOf ''dotnet'') [[]] nat_ids)"
  by code_simp

section \<open>Convention A: one nested cause\<close>























section \<open>Convention E: one frame per pair\<close>

lemma blockLines_simps:
  "blockLines (None, label, nxt) = [label, nxt]"
  "blockLines (Some hl, label, nxt) = [hl, label, nxt]"
  by (simp_all add: blockLines_def)

lemma validBlock_simps:
  "validBlock (None, label, nxt) = (\<not> re_Match label)"
  "validBlock (Some hl, label, nxt) = re_Match hl"
  by (simp_all add: validBlock_def)

lemma goLoop_blocks:
  "list_all validBlock (b # bs) \<Longrightarrow> blockLines b @ concat (map blockLines bs) = line # r \<Longrightarrow>
   goLoop line r path lineNumber cur excs =
     foldl (\<lambda>es f. push_frame cur f es) excs (goFramesSpec path lineNumber (map blockPair (b # bs)))"
proof (induction bs arbitrary: b line r path lineNumber excs)
  case Nil
  obtain h label nxt where b: "b = (h, label, nxt)" by (cases b)
  show ?case
  proof (cases h)
    case None
    with Nil b have "line = label" "r = [nxt]" "\<not> re_Match label"
      by (simp_all add: blockLines_simps validBlock_simps)
    then show ?thesis
      by (cases "plnre_FindStringSubmatch nxt")
         (auto simp add: goLoop.simps[of label] b blockPair_def)
  next
    case (Some hl)
    with Nil b have "line = hl" "r = [label, nxt]" "re_Match hl"
      by (simp_all add: blockLines_simps validBlock_simps)
    then show ?thesis
      by (cases "plnre_FindStringSubmatch nxt")
         (auto simp add: goLoop.simps[of hl] b blockPair_def)
  qed
next
  case (Cons b' bs)
  obtain h label nxt where b: "b = (h, label, nxt)" by (cases b)
  from Cons(2) have v': "list_all validBlock (b' # bs)" by simp
  obtain line3 r3 where l3: "blockLines b' @ concat (map blockLines bs) = line3 # r3"
    by (cases b'; cases "fst b'") (auto simp: blockLines_def)
  note ih = Cons(1)[OF v' l3]
  show ?case
  proof (cases h)
    case None
    with Cons(2,3) b l3 have "line = label" "r = nxt # line3 # r3" "\<not> re_Match label"
      by (simp_all add: blockLines_simps validBlock_simps)
    then show ?thesis
      by (cases "plnre_FindStringSubmatch nxt")
         (auto simp add: goLoop.simps[of label] b blockPair_def ih)
  next
    case (Some hl)
    with Cons(2,3) b l3 have "line = hl" "r = label # nxt # line3 # r3" "re_Match hl"
      by (simp_all add: blockLines_simps validBlock_simps)
    then show ?thesis
      by (cases "plnre_FindStringSubmatch nxt")
         (auto simp add: goLoop.simps[of hl] b blockPair_def ih)
  qed
qed

lemma foldl_push_frame:
  "foldl (\<lambda>es f. push_frame 0 f es) [e\<lparr>Stack := Some fs\<rparr>] gs = [e\<lparr>Stack := Some (fs @ gs)\<rparr>]"
  by (induction gs arbitrary: fs) (simp_all add: push_frame_def append_frame_def)

lemma goFramesSpec_length: "length (goFramesSpec path lineNumber ps) = length ps"
  by (induction path lineNumber ps rule: goFramesSpec.induct) (auto split: option.splits)

lemma parseException_go_blocks:
  assumes "NewReader stacktrace = first # concat (map blockLines blocks)"
    and "blocks \<noteq> []" and "list_all validBlock blocks"
  shows "map_option fst (parseException ty msg stacktrace ''go'' ids) =
     Some [\<lparr>ID = Some (ids 0), Type = Some ty, Message = Some msg, Cause = None,
            Stack = Some (goFramesSpec [] 0 (map blockPair blocks))\<rparr>]"
proof -
  from assms(1) have ne: "stacktrace \<noteq> []" by (auto simp: NewReader_def)
  from assms(2) obtain b bs where bl: "blocks = b # bs" by (cases blocks) auto
  obtain line r where lr: "blockLines b @ concat (map blockLines bs) = line # r"
    by (cases b; cases "fst b") (auto simp: blockLines_def)
  let ?e0 = "\<lparr>ID = Some (ids 0), Type = Some ty, Message = Some msg, Cause = None, Stack = None\<rparr>"
  have rs: "reset_stack 0 [?e0] = [?e0\<lparr>Stack := Some []\<rparr>]" by (simp add: reset_stack_def)
  from goLoop_blocks[OF assms(3)[unfolded bl] lr, of "[]" 0 0 "reset_stack 0 [?e0]"]
  have "goLoop line r [] 0 0 (reset_stack 0 [?e0]) =
        [?e0\<lparr>Stack := Some (goFramesSpec [] 0 (map blockPair blocks))\<rparr>]"
    unfolding rs foldl_push_frame bl by simp
  with ne lr show ?thesis
    by (simp add: parseException_unfold Let_def fillGoStacktrace_def assms(1) bl)
qed

text \<open>
  Claim C7. In the Go grammar, after the skipped first line and header, every pair of a
  label line and a next line gives exactly one stack frame, whether or not the pattern
  \<open>plnre\<close> matches the next line; without a match the frame takes the path and the
  line number of the last match before it, the empty path and 0 when there was none.
\<close>

theorem go_frame_per_pair:
  "NewReader stacktrace = first # concat (map blockLines blocks) \<and> blocks \<noteq> [] \<and>
   list_all validBlock blocks \<longrightarrow>
     map_option fst (parseException ty msg stacktrace ''go'' ids) =
       Some [\<lparr>ID = Some (ids 0), Type = Some ty, Message = Some msg, Cause = None,
              Stack = Some (goFramesSpec [] 0 (map blockPair blocks))\<rparr>] \<and>
     length (goFramesSpec [] 0 (map blockPair blocks)) = length blocks"
  using parseException_go_blocks[of stacktrace first blocks ty msg ids]
  by (simp add: goFramesSpec_length)

theorem go_frame_per_pair_witness:
  "NewReader goTrace = ''panic: boom'' # concat (map blockLines goBlocks) \<and> goBlocks \<noteq> [] \<and>
   list_all validBlock goBlocks \<and>
   plnre_FindStringSubmatch ''no position here'' = None \<and>
   map_option fst (parseException ''T'' ''m'' goTrace ''go'' nat_ids) =
     Some [\<lparr>ID = Some 0, Type = Some ''T'', Message = Some ''m'', Cause = None,
            Stack = Some [\<lparr>Path = Some ''/a/b.go'', Label = Some ''main.f()'', Line = Some 10\<rparr>,
                          \<lparr>Path = Some ''/a/b.go'', Label = Some ''main.g()'', Line = Some 10\<rparr>]\<rparr>]"
proof -
  have a: "NewReader goTrace = ''panic: boom'' # concat (map blockLines goBlocks)" by code_simp
  have b: "goBlocks \<noteq> []" by (simp add: goBlocks_def)
  have c: "list_all validBlock goBlocks" by code_simp
  have d: "plnre_FindStringSubmatch ''no position here'' = None" by code_simp
  have f: "goFramesSpec [] 0 (map blockPair goBlocks) =
           [\<lparr>Path = Some ''/a/b.go'', Label = Some ''main.f()'', Line = Some 10\<rparr>,
            \<lparr>Path = Some ''/a/b.go'', Label = Some ''main.g()'', Line = Some 10\<rparr>]" by code_simp
  from go_frame_per_pair[of goTrace "''panic: boom''" goBlocks "''T''" "''m''" nat_ids] a b c d
  show ?thesis by (simp add: f nat_ids_def)
qed

end
